theory Spec2Isabelle
  imports Main
begin

section \<open>The server listing endpoint: \<^verbatim>\<open>ServerListViewSet.list\<close> of djchat/server/views.py\<close>

text \<open>
  The view reads five query parameters, narrows \<^verbatim>\<open>self.queryset\<close> stage by stage
  (category, by_user, with_num_members, by_serverid, qty) and hands the queryset and the
  \<^verbatim>\<open>num_members\<close> flag to the serializer. Every \<^verbatim>\<open>raise\<close> of the source is a value of
  \<open>error\<close>; the assignments to \<^verbatim>\<open>self.queryset\<close> are explicit state passing, and the
  queryset the view holds when an exception leaves it is part of the result.
\<close>

subsection \<open>Data\<close>

text \<open>
  The \<^verbatim>\<open>Server\<close> model lives in models.py, which is not among the sources; the view uses
  three of its fields: \<^verbatim>\<open>id\<close>, \<^verbatim>\<open>category__name\<close> and the many-to-many relation
  \<^verbatim>\<open>member\<close>. The relation is kept as the list of its rows for the server (the user id of
  each row), since \<^verbatim>\<open>Count("member")\<close> counts rows.
\<close>

record server =
  server_id :: int
  category_name :: string
  member :: "int list"

text \<open>An element of a queryset: the instance and the \<^verbatim>\<open>num_members\<close> annotation, when attached.\<close>

record row =
  "instance" :: server
  num_members :: "nat option"

type_synonym queryset = "row list"

text \<open>\<^verbatim>\<open>request.user\<close>: Django's \<^verbatim>\<open>AnonymousUser\<close> (not authenticated, no id) or a user with an id.\<close>

datatype user = AnonymousUser | User int

fun is_authenticated :: "user \<Rightarrow> bool" where
  "is_authenticated AnonymousUser = False"
| "is_authenticated (User uid) = True"

text \<open>
  \<^verbatim>\<open>request.query_params.get(key)\<close> returns one string or \<^verbatim>\<open>None\<close>, so the parameters
  are a map from keys to strings.
\<close>

record request =
  query_params :: "string \<rightharpoonup> string"
  user :: user

text \<open>
  The exceptions that leave the view. \<^verbatim>\<open>AuthenticationFailed\<close> and \<^verbatim>\<open>ValidationError\<close>
  are the framework's typed API exceptions (401 and 400). \<open>ValueError\<close> is the exception of
  \<^verbatim>\<open>int(qty)\<close> on the literal it carries, and \<open>NegativeIndexing\<close> the one the queryset
  raises on a negative slice bound ("Negative indexing is not supported."); neither is an
  API exception and no handler of the view catches them.
\<close>

datatype error =
    AuthenticationFailed
  | ValidationError string
  | ValueError string
  | NegativeIndexing

text \<open>What the view passes to \<^verbatim>\<open>ServerSerializer(queryset, many=True, context=...)\<close>.\<close>

record response =
  data :: queryset
  context_num_members :: bool

subsection \<open>Python's \<^verbatim>\<open>int(str)\<close>\<close>

text \<open>
  Both \<^verbatim>\<open>int(qty)\<close> and the \<^verbatim>\<open>id\<close> lookup (\<^verbatim>\<open>IntegerField.get_prep_value\<close>) convert
  with \<^verbatim>\<open>int\<close>: surrounding whitespace is dropped, one sign is allowed, and the rest is
  decimal digits with single underscores between digits. A character is a code point below
  256; digits of other scripts and the length limit of recent interpreters are outside the
  model.
\<close>

definition py_isspace :: "char \<Rightarrow> bool" where
  "py_isspace c = ((of_char c :: nat) \<in> {9, 10, 11, 12, 13, 32, 133, 160})"

definition is_digit :: "char \<Rightarrow> bool" where
  "is_digit c = (48 \<le> (of_char c :: nat) \<and> (of_char c :: nat) \<le> 57)"

definition digit_value :: "char \<Rightarrow> int" where
  "digit_value c = int (of_char c) - 48"

text \<open>
  \<open>digits_of prev cs\<close>: the digits of \<open>cs\<close> with the underscores removed, or \<open>None\<close> when
  \<open>cs\<close> is not a digit string; \<open>prev\<close> says that the character before was a digit (an
  underscore and the end are allowed only then).
\<close>

fun digits_of :: "bool \<Rightarrow> string \<Rightarrow> string option" where
  "digits_of prev [] = (if prev then Some [] else None)"
| "digits_of prev (c # cs) =
     (if is_digit c then map_option ((#) c) (digits_of True cs)
      else if c = CHR ''_'' \<and> prev then digits_of False cs
      else None)"

definition decimal :: "string \<Rightarrow> int" where
  "decimal ds = foldl (\<lambda>a c. 10 * a + digit_value c) 0 ds"

definition py_int :: "string \<Rightarrow> int option" where
  "py_int s =
     (let t = rev (dropWhile py_isspace (rev (dropWhile py_isspace s)))
      in case t of
           [] \<Rightarrow> None
         | c # cs \<Rightarrow>
             if c = CHR ''-'' then map_option (\<lambda>ds. - decimal ds) (digits_of False cs)
             else if c = CHR ''+'' then map_option decimal (digits_of False cs)
             else map_option decimal (digits_of False t))"

subsection \<open>Queryset operations\<close>

text \<open>\<^verbatim>\<open>Server.objects.all()\<close> over the table: every server, nothing annotated.\<close>

definition objects_all :: "server list \<Rightarrow> queryset" where
  "objects_all table = map (\<lambda>s. \<lparr>instance = s, num_members = None\<rparr>) table"

text \<open>\<^verbatim>\<open>.filter(category__name=c)\<close>: exact comparison of the category's name.\<close>

definition filter_category :: "string \<Rightarrow> queryset \<Rightarrow> queryset" where
  "filter_category c qs = filter (\<lambda>r. category_name (instance r) = c) qs"

text \<open>
  \<^verbatim>\<open>.filter(member=uid)\<close> joins the relation: a server comes out once for each row of the
  relation that links it to \<open>uid\<close>.
\<close>

definition filter_member :: "int \<Rightarrow> queryset \<Rightarrow> queryset" where
  "filter_member uid qs =
     concat (map (\<lambda>r. replicate (count_list (member (instance r)) uid) r) qs)"

text \<open>\<^verbatim>\<open>.annotate(num_members=Count("member"))\<close>: the number of rows of the relation.\<close>

definition annotate_num_members :: "queryset \<Rightarrow> queryset" where
  "annotate_num_members qs =
     map (\<lambda>r. r\<lparr>num_members := Some (length (member (instance r)))\<rparr>) qs"

text \<open>\<^verbatim>\<open>.filter(id=n)\<close>, once the lookup value has been converted.\<close>

definition filter_id :: "int \<Rightarrow> queryset \<Rightarrow> queryset" where
  "filter_id n qs = filter (\<lambda>r. server_id (instance r) = n) qs"


subsection \<open>The stages of \<^verbatim>\<open>list\<close>\<close>

text \<open>
  A stage takes \<^verbatim>\<open>self.queryset\<close> and returns it as the stage leaves it, with the
  exception it raises, if any. The test \<^verbatim>\<open>if category:\<close> (and the same for
  \<^verbatim>\<open>by_serverid\<close> and \<^verbatim>\<open>qty\<close>) is Python's truth test: \<^verbatim>\<open>None\<close> and the empty string
  are both false.
\<close>

text \<open>Lines 77-78.\<close>

definition category_stage :: "string option \<Rightarrow> queryset \<Rightarrow> queryset" where
  "category_stage category qs =
     (case category of
        None \<Rightarrow> qs
      | Some c \<Rightarrow> if c = [] then qs else filter_category c qs)"

text \<open>Lines 80-84: the \<^verbatim>\<open>raise\<close> stands after the inner \<^verbatim>\<open>if\<close>, not in an \<^verbatim>\<open>else\<close>.\<close>

definition by_user_stage :: "bool \<Rightarrow> user \<Rightarrow> queryset \<Rightarrow> queryset \<times> error option" where
  "by_user_stage by_user u qs =
     (if by_user then
        ((case u of User uid \<Rightarrow> filter_member uid qs | AnonymousUser \<Rightarrow> qs),
         Some AuthenticationFailed)
      else (qs, None))"

text \<open>Lines 86-87.\<close>

definition num_members_stage :: "bool \<Rightarrow> queryset \<Rightarrow> queryset" where
  "num_members_stage with_num_members qs =
     (if with_num_members then annotate_num_members qs else qs)"

text \<open>
  Lines 89-99. The conversion fails inside \<^verbatim>\<open>filter\<close>, before the assignment, and its
  \<^verbatim>\<open>ValueError\<close> is caught; the \<^verbatim>\<open>ValidationError\<close> of the empty result is not a
  \<^verbatim>\<open>ValueError\<close> and passes the handler. The message is built from the parameter as given.
\<close>

definition by_serverid_stage ::
  "string option \<Rightarrow> user \<Rightarrow> queryset \<Rightarrow> queryset \<times> error option" where
  "by_serverid_stage by_serverid u qs =
     (case by_serverid of
        None \<Rightarrow> (qs, None)
      | Some v \<Rightarrow>
          if v = [] then (qs, None)
          else if \<not> is_authenticated u then (qs, Some AuthenticationFailed)
          else
            (case py_int v of
               None \<Rightarrow> (qs, Some (ValidationError ''Server value error''))
             | Some n \<Rightarrow>
                 let qs' = filter_id n qs
                 in if qs' = []
                    then (qs', Some (ValidationError (''Server with id '' @ v @ '' not found'')))
                    else (qs', None)))"

text \<open>Lines 101-102: \<^verbatim>\<open>self.queryset[: int(qty)]\<close>.\<close>

definition qty_stage :: "string option \<Rightarrow> queryset \<Rightarrow> queryset \<times> error option" where
  "qty_stage qty qs =
     (case qty of
        None \<Rightarrow> (qs, None)
      | Some q \<Rightarrow>
          if q = [] then (qs, None)
          else
            (case py_int q of
               None \<Rightarrow> (qs, Some (ValueError q))
             | Some n \<Rightarrow>
                 if n < 0 then (qs, Some NegativeIndexing)
                 else (take (nat n) qs, None)))"

subsection \<open>The view\<close>

text \<open>Lines 71-99: the queryset before the quantity bound.\<close>

definition stages_1_4 :: "request \<Rightarrow> queryset \<Rightarrow> queryset \<times> error option" where
  "stages_1_4 request qs =
     (let category = query_params request ''category'';
          by_user = (query_params request ''by_user'' = Some ''true'');
          by_serverid = query_params request ''by_serverid'';
          with_num_members = (query_params request ''with_num_members'' = Some ''true'')
      in case by_user_stage by_user (user request) (category_stage category qs) of
           (qs2, Some e) \<Rightarrow> (qs2, Some e)
         | (qs2, None) \<Rightarrow>
             by_serverid_stage by_serverid (user request)
               (num_members_stage with_num_members qs2))"

text \<open>
  The whole method: the queryset the view is left with, and the exception raised or the
  arguments of the serializer.
\<close>

definition ServerListViewSet_list :: "request \<Rightarrow> queryset \<Rightarrow> queryset \<times> (error + response)" where
  "ServerListViewSet_list request qs =
     (case stages_1_4 request qs of
        (qs4, Some e) \<Rightarrow> (qs4, Inl e)
      | (qs4, None) \<Rightarrow>
          (case qty_stage (query_params request ''qty'') qs4 of
             (qs5, Some e) \<Rightarrow> (qs5, Inl e)
           | (qs5, None) \<Rightarrow>
               (qs5, Inr \<lparr>data = qs5,
                          context_num_members =
                            (query_params request ''with_num_members'' = Some ''true'')\<rparr>)))"

subsection \<open>A small table for concrete runs\<close>

definition srv_web1 :: server where
  "srv_web1 = \<lparr>server_id = 1, category_name = ''web'', member = [5, 7, 9]\<rparr>"

definition srv_web2 :: server where
  "srv_web2 = \<lparr>server_id = 2, category_name = ''web'', member = [5]\<rparr>"

definition srv_game :: server where
  "srv_game = \<lparr>server_id = 3, category_name = ''game'', member = []\<rparr>"

definition ex_table :: queryset where
  "ex_table = objects_all [srv_web1, srv_web2, srv_game]"

section \<open>Properties\<close>

lemmas stage_defs = category_stage_def by_user_stage_def num_members_stage_def
  by_serverid_stage_def qty_stage_def

lemmas view_defs = ServerListViewSet_list_def stages_1_4_def

lemmas query_defs = objects_all_def filter_category_def filter_member_def
  annotate_num_members_def filter_id_def

lemmas int_defs = py_int_def py_isspace_def is_digit_def digit_value_def decimal_def

lemmas ex_defs = ex_table_def srv_web1_def srv_web2_def srv_game_def

lemma py_int_empty: "py_int [] = None"
  by (simp add: py_int_def)

subsection \<open>The by-user stage\<close>

text \<open>
  C1. The claim: with \<^verbatim>\<open>by_user=true\<close> and an authenticated caller the pipeline narrows
  to the servers the caller is a member of and goes on to the next stage without an error.
  The code narrows and then raises: the \<^verbatim>\<open>raise AuthenticationFailed()\<close> of line 84 is
  not under an \<^verbatim>\<open>else\<close>, so every request with \<^verbatim>\<open>by_user=true\<close> from an authenticated
  caller ends in \<open>AuthenticationFailed\<close>, holding the narrowed queryset.
\<close>

theorem by_user_authenticated_raises:
  assumes "query_params r ''by_user'' = Some ''true''" and "user r = User uid"
  shows "ServerListViewSet_list r qs =
           (filter_member uid (category_stage (query_params r ''category'') qs),
            Inl AuthenticationFailed)"
  using assms by (simp add: view_defs by_user_stage_def)

theorem by_user_authenticated_raises_witness:
  "query_params \<lparr>query_params = [''by_user'' \<mapsto> ''true''], user = User 5\<rparr> ''by_user'' = Some ''true''
   \<and> ServerListViewSet_list \<lparr>query_params = [''by_user'' \<mapsto> ''true''], user = User 5\<rparr> ex_table =
       (objects_all [srv_web1, srv_web2], Inl AuthenticationFailed)"
  using by_user_authenticated_raises
    [of "\<lparr>query_params = [''by_user'' \<mapsto> ''true''], user = User 5\<rparr>" 5 ex_table]
  by (simp add: stage_defs query_defs ex_defs)

text \<open>
  C2. With \<^verbatim>\<open>by_user=true\<close> and an unauthenticated caller the pipeline fails with
  \<open>AuthenticationFailed\<close>, and the member narrowing is skipped: the queryset the view holds
  is the one the category stage left.
\<close>

theorem by_user_anonymous_raises:
  assumes "query_params r ''by_user'' = Some ''true''" and "user r = AnonymousUser"
  shows "ServerListViewSet_list r qs =
           (category_stage (query_params r ''category'') qs, Inl AuthenticationFailed)"
  using assms by (simp add: view_defs by_user_stage_def)

theorem by_user_anonymous_raises_witness:
  "ServerListViewSet_list
     \<lparr>query_params = [''by_user'' \<mapsto> ''true'', ''category'' \<mapsto> ''web''], user = AnonymousUser\<rparr>
     ex_table =
   (objects_all [srv_web1, srv_web2], Inl AuthenticationFailed)"
  using by_user_anonymous_raises
    [of "\<lparr>query_params = [''by_user'' \<mapsto> ''true'', ''category'' \<mapsto> ''web''], user = AnonymousUser\<rparr>"
        ex_table]
  by (simp add: stage_defs query_defs ex_defs)

subsection \<open>The by-server-id stage\<close>

text \<open>
  C3, as stated: every request that carries \<^verbatim>\<open>by_serverid\<close> from an unauthenticated
  caller fails with \<open>AuthenticationFailed\<close>. It fails for the empty value: line 89 tests the
  truth of the string, the stage is skipped and the request succeeds.
\<close>

theorem by_serverid_empty_anonymous_counterexample:
  "snd (ServerListViewSet_list \<lparr>query_params = [''by_serverid'' \<mapsto> ''''], user = AnonymousUser\<rparr>
          ex_table) =
   Inr \<lparr>data = ex_table, context_num_members = False\<rparr>"
  by (simp add: view_defs stage_defs)

text \<open>
  C3, amended: every request with a non-empty \<^verbatim>\<open>by_serverid\<close> from an unauthenticated
  caller fails with \<open>AuthenticationFailed\<close>, whether or not the value converts to an integer
  and whether or not a server has that id.
\<close>

theorem by_serverid_anonymous_raises:
  assumes "query_params r ''by_serverid'' = Some v" and "v \<noteq> []" and "user r = AnonymousUser"
  shows "snd (ServerListViewSet_list r qs) = Inl AuthenticationFailed"
proof (cases "query_params r ''by_user'' = Some ''true''")
  case True
  with assms show ?thesis by (simp add: view_defs by_user_stage_def)
next
  case False
  with assms show ?thesis by (simp add: view_defs by_user_stage_def by_serverid_stage_def)
qed

theorem by_serverid_anonymous_raises_witness:
  "snd (ServerListViewSet_list \<lparr>query_params = [''by_serverid'' \<mapsto> ''1''], user = AnonymousUser\<rparr>
          ex_table) = Inl AuthenticationFailed
   \<and> snd (ServerListViewSet_list \<lparr>query_params = [''by_serverid'' \<mapsto> ''abc''], user = AnonymousUser\<rparr>
          ex_table) = Inl AuthenticationFailed"
  using by_serverid_anonymous_raises
      [of "\<lparr>query_params = [''by_serverid'' \<mapsto> ''1''], user = AnonymousUser\<rparr>" "''1''" ex_table]
    by_serverid_anonymous_raises
      [of "\<lparr>query_params = [''by_serverid'' \<mapsto> ''abc''], user = AnonymousUser\<rparr>" "''abc''" ex_table]
  by simp

text \<open>
  C4, as stated: every request from an authenticated caller whose \<^verbatim>\<open>by_serverid\<close> does not
  convert to an integer fails with \<open>ValidationError\<close> "Server value error". The empty string
  does not convert, and with it the stage is skipped and the request succeeds.
\<close>

theorem by_serverid_empty_unparsed_counterexample:
  "py_int '''' = None
   \<and> snd (ServerListViewSet_list \<lparr>query_params = [''by_serverid'' \<mapsto> ''''], user = User 5\<rparr>
            ex_table) =
       Inr \<lparr>data = ex_table, context_num_members = False\<rparr>"
  by (simp add: view_defs stage_defs py_int_def)

text \<open>
  C4, amended: every request from an authenticated caller, with \<^verbatim>\<open>by_user\<close> not
  \<^verbatim>\<open>"true"\<close>, whose \<^verbatim>\<open>by_serverid\<close> is not empty and does not convert to an integer fails
  with \<open>ValidationError\<close> "Server value error"; the queryset is the one stages 1 to 3 left.
\<close>

theorem by_serverid_unparsed_raises:
  assumes "user r = User uid" and "query_params r ''by_user'' \<noteq> Some ''true''"
    and "query_params r ''by_serverid'' = Some v" and "v \<noteq> []" and "py_int v = None"
  shows "ServerListViewSet_list r qs =
           (num_members_stage (query_params r ''with_num_members'' = Some ''true'')
              (category_stage (query_params r ''category'') qs),
            Inl (ValidationError ''Server value error''))"
  using assms by (simp add: view_defs by_user_stage_def by_serverid_stage_def)

theorem by_serverid_unparsed_raises_witness:
  "py_int ''abc'' = None
   \<and> ServerListViewSet_list \<lparr>query_params = [''by_serverid'' \<mapsto> ''abc''], user = User 5\<rparr>
         ex_table =
       (ex_table, Inl (ValidationError ''Server value error''))"
proof -
  have p: "py_int ''abc'' = None"
    by (simp add: int_defs)
  show ?thesis
    using p by_serverid_unparsed_raises
      [of "\<lparr>query_params = [''by_serverid'' \<mapsto> ''abc''], user = User 5\<rparr>" 5 "''abc''" ex_table]
    by (simp add: stage_defs)
qed

text \<open>
  When the by-user stage does not raise, an id that converts and matches no server of the
  working queryset gives the "not found" error, with the parameter as it was given.
\<close>

lemma by_serverid_not_found:
  assumes "user r = User uid" and "query_params r ''by_user'' \<noteq> Some ''true''"
    and "query_params r ''by_serverid'' = Some v" and "py_int v = Some n"
    and "filter_id n (category_stage (query_params r ''category'') qs) = []"
  shows "ServerListViewSet_list r qs =
           ([], Inl (ValidationError (''Server with id '' @ v @ '' not found'')))"
proof -
  from assms(4) have "v \<noteq> []"
    by (auto simp: py_int_empty)
  moreover have "filter_id n (num_members_stage b (category_stage c qs)) = []"
    if "filter_id n (category_stage c qs) = []" for b c
    using that
    by (simp add: num_members_stage_def annotate_num_members_def filter_id_def
        filter_empty_conv)
  ultimately show ?thesis
    using assms by (simp add: view_defs by_user_stage_def by_serverid_stage_def)
qed

text \<open>
  C5. The claim: an authenticated caller whose \<^verbatim>\<open>by_serverid\<close> converts to an integer that
  no server of the working queryset has gets \<open>ValidationError\<close> "Server with id 999 not
  found". With \<^verbatim>\<open>by_user=true\<close> the unconditional \<^verbatim>\<open>raise\<close> of line 84 comes first, and
  the caller gets \<open>AuthenticationFailed\<close>.
\<close>

theorem by_user_hides_not_found:
  "py_int ''999'' = Some 999
   \<and> filter_id 999 ex_table = []
   \<and> ServerListViewSet_list
         \<lparr>query_params = [''by_user'' \<mapsto> ''true'', ''by_serverid'' \<mapsto> ''999''], user = User 5\<rparr>
         ex_table =
       (objects_all [srv_web1, srv_web2], Inl AuthenticationFailed)"
  by (simp add: view_defs stage_defs query_defs ex_defs int_defs)

subsection \<open>Successful runs\<close>

text \<open>
  A run that returns a response passed every stage: the by-user stage did not run, and the
  response holds the queryset the quantity stage left. No stage adds an element.
\<close>

lemma list_success:
  assumes "ServerListViewSet_list r qs = (qs', Inr resp)"
  shows "\<exists>qs4. stages_1_4 r qs = (qs4, None)
           \<and> qty_stage (query_params r ''qty'') qs4 = (qs', None)
           \<and> data resp = qs'
           \<and> context_num_members resp = (query_params r ''with_num_members'' = Some ''true'')"
  using assms
  by (auto simp: ServerListViewSet_list_def split: prod.splits option.splits)

lemma stages_1_4_success:
  assumes "stages_1_4 r qs = (qs4, None)"
  shows "query_params r ''by_user'' \<noteq> Some ''true''
         \<and> by_serverid_stage (query_params r ''by_serverid'') (user r)
             (num_members_stage (query_params r ''with_num_members'' = Some ''true'')
                (category_stage (query_params r ''category'') qs)) = (qs4, None)"
  using assms
  by (auto simp: stages_1_4_def by_user_stage_def Let_def split: if_splits)

lemma by_serverid_stage_subset:
  assumes "by_serverid_stage p u qs = (qs', e)"
  shows "set qs' \<subseteq> set qs"
  using assms
  by (auto simp: by_serverid_stage_def filter_id_def Let_def
      split: option.splits if_splits)

lemma qty_stage_subset:
  assumes "qty_stage p qs = (qs', e)"
  shows "set qs' \<subseteq> set qs"
  using assms
  by (auto simp: qty_stage_def split: option.splits if_splits dest: in_set_takeD)

lemma list_success_instances:
  assumes "ServerListViewSet_list r qs = (qs', Inr resp)"
  shows "instance ` set (data resp) \<subseteq>
           instance ` set (category_stage (query_params r ''category'') qs)"
proof -
  from list_success [OF assms] obtain qs4 where
    s: "stages_1_4 r qs = (qs4, None)"
    and q: "qty_stage (query_params r ''qty'') qs4 = (qs', None)"
    and d: "data resp = qs'"
    by blast
  from stages_1_4_success [OF s] have
    "by_serverid_stage (query_params r ''by_serverid'') (user r)
       (num_members_stage (query_params r ''with_num_members'' = Some ''true'')
          (category_stage (query_params r ''category'') qs)) = (qs4, None)"
    by simp
  from by_serverid_stage_subset [OF this] qty_stage_subset [OF q] d
  have "set (data resp) \<subseteq>
          set (num_members_stage (query_params r ''with_num_members'' = Some ''true'')
                 (category_stage (query_params r ''category'') qs))"
    by blast
  moreover have "instance ` set (num_members_stage b xs) = instance ` set xs" for b xs
    by (auto simp: num_members_stage_def annotate_num_members_def image_iff)
  ultimately show ?thesis
    by blast
qed

subsection \<open>The member count\<close>





subsection \<open>The quantity bound\<close>

text \<open>
  C7. In every successful request whose \<^verbatim>\<open>qty\<close> converts to an integer \<open>n \<ge> 0\<close>, the
  outcome is the first \<open>n\<close> elements of the queryset stages 1 to 4 produced, in their order:
  its length is the minimum of \<open>n\<close> and the size of that queryset, never more than \<open>n\<close>,
  empty for \<open>n = 0\<close>, and the whole queryset when \<open>n\<close> is at least its size.
\<close>

theorem qty_bounds_outcome:
  assumes "ServerListViewSet_list r qs = (qs', Inr resp)"
    and "query_params r ''qty'' = Some q" and "py_int q = Some n" and "0 \<le> n"
  shows "\<exists>qs4. stages_1_4 r qs = (qs4, None)
           \<and> data resp = take (nat n) qs4
           \<and> length (data resp) = min (nat n) (length qs4)
           \<and> length (data resp) \<le> nat n
           \<and> (n = 0 \<longrightarrow> data resp = [])
           \<and> (length qs4 \<le> nat n \<longrightarrow> data resp = qs4)"
proof -
  from list_success [OF assms(1)] obtain qs4 where
    s: "stages_1_4 r qs = (qs4, None)"
    and t: "qty_stage (query_params r ''qty'') qs4 = (qs', None)"
    and d: "data resp = qs'"
    by blast
  from assms(3) have "q \<noteq> []"
    by (auto simp: py_int_empty)
  with t assms(2-4) have "qs' = take (nat n) qs4"
    by (simp add: qty_stage_def)
  with s d show ?thesis
    by (auto simp: min_def)
qed

theorem qty_bounds_outcome_witness:
  "py_int ''1'' = Some 1
   \<and> stages_1_4 \<lparr>query_params = [''category'' \<mapsto> ''web'', ''qty'' \<mapsto> ''1''], user = AnonymousUser\<rparr>
       ex_table = (objects_all [srv_web1, srv_web2], None)
   \<and> ServerListViewSet_list
       \<lparr>query_params = [''category'' \<mapsto> ''web'', ''qty'' \<mapsto> ''1''], user = AnonymousUser\<rparr> ex_table =
       (objects_all [srv_web1], Inr \<lparr>data = objects_all [srv_web1], context_num_members = False\<rparr>)"
proof -
  have p: "py_int ''1'' = Some 1"
    by (simp add: int_defs)
  have run:
    "ServerListViewSet_list
       \<lparr>query_params = [''category'' \<mapsto> ''web'', ''qty'' \<mapsto> ''1''], user = AnonymousUser\<rparr> ex_table =
       (objects_all [srv_web1], Inr \<lparr>data = objects_all [srv_web1], context_num_members = False\<rparr>)"
    by (simp add: view_defs stage_defs query_defs ex_defs int_defs)
  have s: "stages_1_4 \<lparr>query_params = [''category'' \<mapsto> ''web'', ''qty'' \<mapsto> ''1''], user = AnonymousUser\<rparr>
       ex_table = (objects_all [srv_web1, srv_web2], None)"
    by (simp add: view_defs stage_defs query_defs ex_defs)
  from qty_bounds_outcome [OF run _ p] s
  have "data \<lparr>data = objects_all [srv_web1], context_num_members = False\<rparr> =
          take (nat 1) (objects_all [srv_web1, srv_web2])"
    by simp
  with p s run show ?thesis
    by simp
qed

text \<open>
  C8, as stated: every request whose \<^verbatim>\<open>qty\<close> is present and does not convert to an
  integer fails with an uncaught, untyped error. The empty string does not convert, and the
  stage is skipped (line 101 tests the truth of the string); and a stage that fails earlier
  gives its own typed error, since \<^verbatim>\<open>qty\<close> is converted last.
\<close>

theorem qty_unparsed_counterexample:
  "py_int '''' = None
   \<and> snd (ServerListViewSet_list \<lparr>query_params = [''qty'' \<mapsto> ''''], user = AnonymousUser\<rparr> ex_table) =
       Inr \<lparr>data = ex_table, context_num_members = False\<rparr>
   \<and> py_int ''many'' = None
   \<and> snd (ServerListViewSet_list
            \<lparr>query_params = [''qty'' \<mapsto> ''many'', ''by_serverid'' \<mapsto> ''abc''], user = User 5\<rparr> ex_table) =
       Inl (ValidationError ''Server value error'')"
  by (simp add: view_defs stage_defs int_defs)

text \<open>
  C8, amended: every request whose \<^verbatim>\<open>qty\<close> is not empty and does not convert to an
  integer, and in which stages 1 to 4 raise nothing, fails with the \<open>ValueError\<close> of
  \<^verbatim>\<open>int(qty)\<close>: no handler turns it into \<open>ValidationError\<close> or \<open>AuthenticationFailed\<close>.
\<close>

theorem qty_unparsed_propagates:
  assumes "query_params r ''qty'' = Some q" and "q \<noteq> []" and "py_int q = None"
    and "stages_1_4 r qs = (qs4, None)"
  shows "ServerListViewSet_list r qs = (qs4, Inl (ValueError q))"
  using assms by (simp add: ServerListViewSet_list_def qty_stage_def)

theorem qty_unparsed_propagates_witness:
  "py_int ''many'' = None
   \<and> ServerListViewSet_list
       \<lparr>query_params = [''qty'' \<mapsto> ''many'', ''category'' \<mapsto> ''web''], user = AnonymousUser\<rparr> ex_table =
       (objects_all [srv_web1, srv_web2], Inl (ValueError ''many''))"
proof -
  have p: "py_int ''many'' = None"
    by (simp add: int_defs)
  have s: "stages_1_4 \<lparr>query_params = [''qty'' \<mapsto> ''many'', ''category'' \<mapsto> ''web''], user = AnonymousUser\<rparr>
       ex_table = (objects_all [srv_web1, srv_web2], None)"
    by (simp add: view_defs stage_defs query_defs ex_defs)
  from qty_unparsed_propagates [OF _ _ p s] p show ?thesis
    by simp
qed

subsection \<open>The category filter\<close>

text \<open>
  C9, as stated: every request that carries \<^verbatim>\<open>category\<close> is narrowed to the servers whose
  category name equals the value. With the empty string the stage is skipped (line 77 tests
  the truth of the string): a server of category "web" stays in the outcome.
\<close>

theorem category_empty_counterexample:
  "snd (ServerListViewSet_list \<lparr>query_params = [''category'' \<mapsto> ''''], user = AnonymousUser\<rparr>
          (objects_all [srv_web1])) =
     Inr \<lparr>data = objects_all [srv_web1], context_num_members = False\<rparr>
   \<and> category_name srv_web1 \<noteq> ''''"
  by (simp add: view_defs stage_defs ex_defs)

text \<open>
  C9, amended: for every request whose \<^verbatim>\<open>category\<close> is a non-empty string \<open>c\<close>, the
  pipeline runs on exactly the servers whose category name equals \<open>c\<close> (the comparison is
  equality of strings, so case matters): it gives what the same request without
  \<^verbatim>\<open>category\<close> gives on that narrowed collection, every server of a successful outcome has
  category \<open>c\<close>, and when no server matches and no later stage fails the outcome is the empty
  sequence.
\<close>

theorem category_narrows:
  assumes "query_params r ''category'' = Some c" and "c \<noteq> []"
  shows "ServerListViewSet_list r qs =
           ServerListViewSet_list (r\<lparr>query_params := (query_params r)(''category'' := None)\<rparr>)
             (filter (\<lambda>x. category_name (instance x) = c) qs)
         \<and> (\<forall>qs' resp. ServerListViewSet_list r qs = (qs', Inr resp) \<longrightarrow>
               (\<forall>x \<in> set (data resp). category_name (instance x) = c)
               \<and> ((\<forall>x \<in> set qs. category_name (instance x) \<noteq> c) \<longrightarrow> data resp = []))"
proof (intro conjI allI impI)
  show "ServerListViewSet_list r qs =
          ServerListViewSet_list (r\<lparr>query_params := (query_params r)(''category'' := None)\<rparr>)
            (filter (\<lambda>x. category_name (instance x) = c) qs)"
    using assms
    by (simp add: view_defs category_stage_def filter_category_def Let_def
        cong: option.case_cong)
next
  fix qs' resp
  assume run: "ServerListViewSet_list r qs = (qs', Inr resp)"
  from list_success_instances [OF run] assms
  have sub: "instance ` set (data resp) \<subseteq>
               instance ` set (filter (\<lambda>x. category_name (instance x) = c) qs)"
    by (simp add: category_stage_def filter_category_def)
  then show "\<forall>x \<in> set (data resp). category_name (instance x) = c"
    by auto
  show "data resp = []" if "\<forall>x \<in> set qs. category_name (instance x) \<noteq> c"
  proof -
    from that have "filter (\<lambda>x. category_name (instance x) = c) qs = []"
      by (simp add: filter_empty_conv)
    with sub show ?thesis
      by simp
  qed
qed

theorem category_narrows_witness:
  "ServerListViewSet_list \<lparr>query_params = [''category'' \<mapsto> ''web''], user = AnonymousUser\<rparr> ex_table =
     (objects_all [srv_web1, srv_web2],
      Inr \<lparr>data = objects_all [srv_web1, srv_web2], context_num_members = False\<rparr>)
   \<and> ServerListViewSet_list \<lparr>query_params = [''category'' \<mapsto> ''Web''], user = AnonymousUser\<rparr> ex_table =
     ([], Inr \<lparr>data = [], context_num_members = False\<rparr>)"
proof -
  have run: "ServerListViewSet_list \<lparr>query_params = [''category'' \<mapsto> ''Web''], user = AnonymousUser\<rparr>
      ex_table = ([], Inr \<lparr>data = [], context_num_members = False\<rparr>)"
    by (simp add: view_defs stage_defs query_defs ex_defs)
  have none: "\<forall>x \<in> set ex_table. category_name (instance x) \<noteq> ''Web''"
    by (simp add: query_defs ex_defs)
  from category_narrows
    [of "\<lparr>query_params = [''category'' \<mapsto> ''Web''], user = AnonymousUser\<rparr>" "''Web''" ex_table]
    run none
  have "data \<lparr>data = [], context_num_members = False\<rparr> = ([] :: queryset)"
    by simp
  moreover
  from category_narrows
    [of "\<lparr>query_params = [''category'' \<mapsto> ''web''], user = AnonymousUser\<rparr>" "''web''" ex_table]
  have "ServerListViewSet_list \<lparr>query_params = [''category'' \<mapsto> ''web''], user = AnonymousUser\<rparr> ex_table =
     (objects_all [srv_web1, srv_web2],
      Inr \<lparr>data = objects_all [srv_web1, srv_web2], context_num_members = False\<rparr>)"
    by (simp add: view_defs stage_defs query_defs ex_defs)
  ultimately show ?thesis
    using run by simp
qed

subsection \<open>Empty parameters\<close>

text \<open>
  C10. A \<^verbatim>\<open>category\<close>, \<^verbatim>\<open>qty\<close> or \<^verbatim>\<open>by_serverid\<close> given as the empty string is
  treated as absent: the view gives the same result and holds the same queryset as for the
  request without the parameter, and the stage of the parameter leaves the queryset as it
  is and raises nothing, for every caller; so an empty \<^verbatim>\<open>by_serverid\<close> from an
  unauthenticated caller does not raise \<open>AuthenticationFailed\<close>.
\<close>

theorem empty_parameter_is_absent:
  "ServerListViewSet_list (r\<lparr>query_params := (query_params r)(''category'' \<mapsto> [])\<rparr>) qs =
     ServerListViewSet_list (r\<lparr>query_params := (query_params r)(''category'' := None)\<rparr>) qs
   \<and> ServerListViewSet_list (r\<lparr>query_params := (query_params r)(''qty'' \<mapsto> [])\<rparr>) qs =
     ServerListViewSet_list (r\<lparr>query_params := (query_params r)(''qty'' := None)\<rparr>) qs
   \<and> ServerListViewSet_list (r\<lparr>query_params := (query_params r)(''by_serverid'' \<mapsto> [])\<rparr>) qs =
     ServerListViewSet_list (r\<lparr>query_params := (query_params r)(''by_serverid'' := None)\<rparr>) qs
   \<and> category_stage (Some []) qs = qs
   \<and> qty_stage (Some []) qs = (qs, None)
   \<and> by_serverid_stage (Some []) u qs = (qs, None)"
  by (simp add: view_defs stage_defs Let_def cong: option.case_cong user.case_cong)

end
